theory Spec2Isabelle
  imports Main
begin

section \<open>Object representations\<close>

text \<open>
  A Go \<^verbatim>\<open>error\<close> value carrying its message. A nil error is \<open>None\<close> of
  \<open>error option\<close>; a call returning \<^verbatim>\<open>(T, error)\<close> is a value of \<open>error + T\<close>.
\<close>

datatype error = Error string

text \<open>
  \<^verbatim>\<open>unstructured.Unstructured\<close>, seen through the only accessors the source applies to
  it: \<^verbatim>\<open>GetAnnotations\<close> and \<^verbatim>\<open>SetAnnotations\<close>. The field \<open>annots\<close> is
  \<^verbatim>\<open>metadata.annotations\<close>, a Go \<^verbatim>\<open>map[string]string\<close>; \<open>None\<close> is the absent (nil) map,
  which Go tells apart from the empty one. The field \<open>content\<close> is every other field of the
  object tree (kind, name, spec, ...), which the source never reads or writes. This is the
  object of the spec's data model: a metadata block with an annotations mapping from strings
  to strings. Trees in which \<^verbatim>\<open>metadata\<close> is not a mapping, or an annotation is not a
  string, are not values of this type.
\<close>

record 'a Unstructured =
  annots :: "(string \<rightharpoonup> string) option"
  content :: 'a

text \<open>
  \<^verbatim>\<open>GetAnnotations\<close> hands out a fresh copy of the map (nil when there is none), so writing
  to the copy does not touch the object; \<^verbatim>\<open>SetAnnotations\<close> stores a copy of its argument
  and removes the field when the argument is nil.
\<close>

definition GetAnnotations :: "'a Unstructured \<Rightarrow> (string \<rightharpoonup> string) option" where
  "GetAnnotations obj = annots obj"

definition SetAnnotations :: "'a Unstructured \<Rightarrow> (string \<rightharpoonup> string) option \<Rightarrow> 'a Unstructured" where
  "SetAnnotations obj annotations = obj\<lparr>annots := annotations\<rparr>"

text \<open>Indexing a Go map that may be nil: a nil map has no keys.\<close>

definition index_map :: "(string \<rightharpoonup> string) option \<Rightarrow> string \<Rightarrow> string option" where
  "index_map m k = (case m of None \<Rightarrow> None | Some annotations \<Rightarrow> annotations k)"

text \<open>The local \<^verbatim>\<open>key\<close> of \<^verbatim>\<open>UpdateAnnotation\<close> (client.go, line 68).\<close>

definition key :: string where
  "key = ''config.k8s.io/owning-inventory''"

text \<open>
  \<^verbatim>\<open>v1.LastAppliedConfigAnnotation\<close>, a constant of the imported package
  \<^verbatim>\<open>k8s.io/api/core/v1\<close>.
\<close>

definition LastAppliedConfigAnnotation :: string where
  "LastAppliedConfigAnnotation = ''kubectl.kubernetes.io/last-applied-configuration''"

section \<open>The last-applied snapshot\<close>

text \<open>
  \<^verbatim>\<open>getOriginalObj\<close> (client.go, lines 91 to 103). \<^verbatim>\<open>json.Unmarshal\<close> into a fresh
  \<^verbatim>\<open>Unstructured\<close> belongs to an imported package and is the parameter \<open>unmarshal\<close>; its
  error is dropped and becomes the nil result.
\<close>

definition getOriginalObj ::
  "(string \<Rightarrow> error + 'a Unstructured) \<Rightarrow> 'a Unstructured \<Rightarrow> 'a Unstructured option" where
  "getOriginalObj unmarshal obj =
     (case index_map (GetAnnotations obj) LastAppliedConfigAnnotation of
        None \<Rightarrow> None
      | Some lastApplied \<Rightarrow>
          (case unmarshal lastApplied of
             Inl err \<Rightarrow> None
           | Inr u \<Rightarrow> Some u))"

text \<open>
  Modelled from the spec: \<^verbatim>\<open>util.CreateOrUpdateAnnotation\<close> of the imported package
  \<^verbatim>\<open>k8s.io/kubectl/pkg/util\<close> is not part of the source. The spec describes the step as
  re-serializing the snapshot and writing the text back under the last-applied key, a step
  that may fail after the annotations have been touched. The definitions below follow the
  helper of that package: the object is serialized without its own last-applied annotation,
  the annotation is taken away before the encoder runs and put back only when it succeeded,
  and an object that has no (or an empty) last-applied annotation is left alone when the
  flag \<^verbatim>\<open>createAnnotation\<close> is false. The encoder (\<^verbatim>\<open>scheme.DefaultJSONEncoder()\<close>) is
  the parameter \<open>encode\<close>. Each function returns the object it mutated.
\<close>

definition GetOriginalConfiguration :: "'a Unstructured \<Rightarrow> string option" where
  "GetOriginalConfiguration obj = index_map (GetAnnotations obj) LastAppliedConfigAnnotation"

definition GetModifiedConfiguration ::
  "('a Unstructured \<Rightarrow> error + string) \<Rightarrow> 'a Unstructured \<Rightarrow> 'a Unstructured \<times> (error + string)" where
  "GetModifiedConfiguration encode obj =
     (let annotations = (case GetAnnotations obj of None \<Rightarrow> Map.empty | Some a \<Rightarrow> a);
          original = (case annotations LastAppliedConfigAnnotation of None \<Rightarrow> [] | Some s \<Rightarrow> s);
          stripped = annotations(LastAppliedConfigAnnotation := None);
          obj1 = SetAnnotations obj (Some stripped)
      in case encode obj1 of
           Inl err \<Rightarrow> (obj1, Inl err)
         | Inr modified \<Rightarrow>
             (SetAnnotations obj1 (Some (stripped(LastAppliedConfigAnnotation \<mapsto> original))),
              Inr modified))"

definition setOriginalConfiguration :: "'a Unstructured \<Rightarrow> string \<Rightarrow> 'a Unstructured" where
  "setOriginalConfiguration obj original =
     (if length original < 1 then obj
      else
        (let annotations = (case GetAnnotations obj of None \<Rightarrow> Map.empty | Some a \<Rightarrow> a)
         in SetAnnotations obj (Some (annotations(LastAppliedConfigAnnotation \<mapsto> original)))))"

definition CreateApplyAnnotation ::
  "('a Unstructured \<Rightarrow> error + string) \<Rightarrow> 'a Unstructured \<Rightarrow> 'a Unstructured \<times> error option" where
  "CreateApplyAnnotation encode obj =
     (case GetModifiedConfiguration encode obj of
        (obj1, Inl err) \<Rightarrow> (obj1, Some err)
      | (obj1, Inr modified) \<Rightarrow> (setOriginalConfiguration obj1 modified, None))"

definition updateApplyAnnotation ::
  "('a Unstructured \<Rightarrow> error + string) \<Rightarrow> 'a Unstructured \<Rightarrow> 'a Unstructured \<times> error option" where
  "updateApplyAnnotation encode obj =
     (case GetOriginalConfiguration obj of
        None \<Rightarrow> (obj, None)
      | Some original \<Rightarrow>
          if length original \<le> 0 then (obj, None) else CreateApplyAnnotation encode obj)"

definition CreateOrUpdateAnnotation ::
  "bool \<Rightarrow> 'a Unstructured \<Rightarrow> ('a Unstructured \<Rightarrow> error + string) \<Rightarrow> 'a Unstructured \<times> error option" where
  "CreateOrUpdateAnnotation createAnnotation obj encode =
     (if createAnnotation then CreateApplyAnnotation encode obj
      else updateApplyAnnotation encode obj)"

section \<open>UpdateAnnotation\<close>

text \<open>
  \<^verbatim>\<open>UpdateAnnotation\<close> (client.go, lines 67 to 89). The object is mutated through a
  pointer, so the model returns it first, then the two results of the Go function.
  The snapshot \<open>u\<close> is local to the call and is not returned.
\<close>

definition UpdateAnnotation ::
  "(string \<Rightarrow> error + 'a Unstructured) \<Rightarrow> ('a Unstructured \<Rightarrow> error + string) \<Rightarrow>
   'a Unstructured \<Rightarrow> string \<Rightarrow> string \<Rightarrow> 'a Unstructured \<times> bool \<times> error option" where
  "UpdateAnnotation unmarshal encode obj oldID newID =
     (let annotations = (case GetAnnotations obj of None \<Rightarrow> Map.empty | Some a \<Rightarrow> a)
      in if (case annotations key of None \<Rightarrow> True | Some val \<Rightarrow> val = oldID) then
           (let annotations' = annotations(key \<mapsto> newID)
            in case getOriginalObj unmarshal obj of
                 Some u \<Rightarrow>
                   (case CreateOrUpdateAnnotation False (SetAnnotations u (Some annotations')) encode of
                      (u', err) \<Rightarrow> (SetAnnotations obj (GetAnnotations u'), True, err))
               | None \<Rightarrow> (SetAnnotations obj (Some annotations'), True, None))
         else (obj, False, None))"


section \<open>The client\<close>

text \<open>
  \<^verbatim>\<open>object.ObjMetadata\<close> and \<^verbatim>\<open>schema.GroupKind\<close>, with the fields the source reads.
\<close>

record GroupKind =
  Group :: string
  Kind :: string

record ObjMetadata =
  Namespace :: string
  Name :: string
  GroupKind :: GroupKind

text \<open>
  \<^verbatim>\<open>meta.RESTMapping\<close>: the source reads its field \<^verbatim>\<open>Resource\<close> only and hands it on, so
  the resource descriptor is a type parameter.
\<close>

record 'r RESTMapping =
  Resource :: 'r

text \<open>
  The handle \<^verbatim>\<open>uc.client.Resource(mapping.Resource).Namespace(meta.Namespace)\<close>: the
  two calls build a value bound to a resource descriptor and a namespace and talk to nobody.
\<close>

record 'r ResourceInterface =
  resource :: 'r
  namespace :: string

text \<open>\<^verbatim>\<open>metav1.GetOptions\<close> and \<^verbatim>\<open>metav1.UpdateOptions\<close> and their zero values.\<close>

record GetOptions =
  ResourceVersion :: string

record UpdateOptions =
  DryRun :: "string list"
  FieldManager :: string
  FieldValidation :: string

definition GetOptions_zero :: GetOptions where
  "GetOptions_zero = \<lparr>ResourceVersion = []\<rparr>"

definition UpdateOptions_zero :: UpdateOptions where
  "UpdateOptions_zero = \<lparr>DryRun = [], FieldManager = [], FieldValidation = []\<rparr>"

text \<open>
  The two collaborators are imported interfaces. Each of their methods is a function of
  its arguments and of the state \<open>'w\<close> of the world outside (API server, discovery cache),
  which it returns updated. \<open>'c\<close> is the \<^verbatim>\<open>context.Context\<close> passed through. A Go result
  \<^verbatim>\<open>(*Unstructured, error)\<close> is kept as a pair, both halves as the remote side gave them.
\<close>

record ('w, 'c, 'r, 'a) Interface =
  remote_Get :: "'c \<Rightarrow> 'r ResourceInterface \<Rightarrow> string \<Rightarrow> GetOptions \<Rightarrow> 'w
                 \<Rightarrow> ('a Unstructured option \<times> error option) \<times> 'w"
  remote_Update :: "'c \<Rightarrow> 'r ResourceInterface \<Rightarrow> 'a Unstructured \<Rightarrow> UpdateOptions \<Rightarrow> 'w
                    \<Rightarrow> ('a Unstructured option \<times> error option) \<times> 'w"

record ('w, 'r) RESTMapper =
  RESTMapping :: "GroupKind \<Rightarrow> 'w \<Rightarrow> (error + 'r RESTMapping) \<times> 'w"

record ('w, 'c, 'r, 'a) client =
  client :: "('w, 'c, 'r, 'a) Interface"
  restMapper :: "('w, 'r) RESTMapper"

text \<open>The calls that leave the process, in the order they are made.\<close>

datatype ('c, 'r, 'a) call =
    is_RESTMappingCall: RESTMappingCall GroupKind
  | is_GetCall: GetCall 'c "'r ResourceInterface" string GetOptions
  | is_UpdateCall: UpdateCall 'c "'r ResourceInterface" "'a Unstructured" UpdateOptions

definition NewClient ::
  "('w, 'c, 'r, 'a) Interface \<Rightarrow> ('w, 'r) RESTMapper \<Rightarrow> ('w, 'c, 'r, 'a) client" where
  "NewClient d mapper = \<lparr>client = d, restMapper = mapper\<rparr>"

text \<open>\<^verbatim>\<open>resourceInterface\<close> (client.go, lines 55 to 62).\<close>

definition resourceInterface ::
  "('w, 'c, 'r, 'a) client \<Rightarrow> ObjMetadata \<Rightarrow> 'w
   \<Rightarrow> (error + 'r ResourceInterface) \<times> 'w \<times> ('c, 'r, 'a) call list" where
  "resourceInterface uc meta w =
     (case RESTMapping (restMapper uc) (GroupKind meta) w of
        (Inl err, w') \<Rightarrow> (Inl err, w', [RESTMappingCall (GroupKind meta)])
      | (Inr mapping, w') \<Rightarrow>
          (Inr \<lparr>resource = Resource mapping, namespace = Namespace meta\<rparr>, w',
           [RESTMappingCall (GroupKind meta)]))"

text \<open>\<^verbatim>\<open>Get\<close> (client.go, lines 47 to 53).\<close>

definition Get ::
  "('w, 'c, 'r, 'a) client \<Rightarrow> 'c \<Rightarrow> ObjMetadata \<Rightarrow> 'w
   \<Rightarrow> ('a Unstructured option \<times> error option) \<times> 'w \<times> ('c, 'r, 'a) call list" where
  "Get uc ctx meta w =
     (case resourceInterface uc meta w of
        (Inl err, w', log) \<Rightarrow> ((None, Some err), w', log)
      | (Inr r, w', log) \<Rightarrow>
          (case remote_Get (client uc) ctx r (Name meta) GetOptions_zero w' of
             (res, w'') \<Rightarrow> (res, w'', log @ [GetCall ctx r (Name meta) GetOptions_zero])))"

text \<open>
  \<^verbatim>\<open>Update\<close> (client.go, lines 34 to 44). \<open>options\<close> is a pointer: \<open>None\<close> is nil.
\<close>

definition Update ::
  "('w, 'c, 'r, 'a) client \<Rightarrow> 'c \<Rightarrow> ObjMetadata \<Rightarrow> 'a Unstructured \<Rightarrow> UpdateOptions option \<Rightarrow> 'w
   \<Rightarrow> error option \<times> 'w \<times> ('c, 'r, 'a) call list" where
  "Update uc ctx meta obj options w =
     (case resourceInterface uc meta w of
        (Inl err, w', log) \<Rightarrow> (Some err, w', log)
      | (Inr r, w', log) \<Rightarrow>
          (let options' = (case options of None \<Rightarrow> UpdateOptions_zero | Some opts \<Rightarrow> opts)
           in case remote_Update (client uc) ctx r obj options' w' of
                ((_, err), w'') \<Rightarrow> (err, w'', log @ [UpdateCall ctx r obj options'])))"

section \<open>Example objects and an example codec\<close>

text \<open>
  The theorems below hold for every decoder and encoder. The examples use a ConfigMap
  named \<open>cm\<close> and a codec given by its graph on the four JSON texts that occur: the text of
  the snapshot with one annotation of its own, with an empty annotations map, and the two
  texts written back by \<^verbatim>\<open>UpdateAnnotation\<close>. Keys are in the order Go's encoder writes
  them. Every other text fails to decode, every other object fails to encode.
\<close>

definition ex_content :: "string \<times> string" where
  "ex_content = (''ConfigMap'', ''cm'')"

definition ex_json_a :: string where
  \<open>ex_json_a = ''{"kind":"ConfigMap","metadata":{"annotations":{"a":"1"},"name":"cm"}}''\<close>

definition ex_json_empty :: string where
  \<open>ex_json_empty = ''{"kind":"ConfigMap","metadata":{"annotations":{},"name":"cm"}}''\<close>

definition ex_json_inv3 :: string where
  \<open>ex_json_inv3 = ''{"kind":"ConfigMap","metadata":{"annotations":{"config.k8s.io/owning-inventory":"inv-3"},"name":"cm"}}''\<close>

definition ex_json_b_inv3 :: string where
  \<open>ex_json_b_inv3 = ''{"kind":"ConfigMap","metadata":{"annotations":{"b":"2","config.k8s.io/owning-inventory":"inv-3"},"name":"cm"}}''\<close>

definition ex_snapshot_a :: "(string \<times> string) Unstructured" where
  "ex_snapshot_a = \<lparr>annots = Some [''a'' \<mapsto> ''1''], content = ex_content\<rparr>"

definition ex_snapshot_empty :: "(string \<times> string) Unstructured" where
  "ex_snapshot_empty = \<lparr>annots = Some Map.empty, content = ex_content\<rparr>"

definition ex_snapshot_inv3 :: "(string \<times> string) Unstructured" where
  "ex_snapshot_inv3 = \<lparr>annots = Some [key \<mapsto> ''inv-3''], content = ex_content\<rparr>"

definition ex_snapshot_b_inv3 :: "(string \<times> string) Unstructured" where
  "ex_snapshot_b_inv3 = \<lparr>annots = Some [''b'' \<mapsto> ''2'', key \<mapsto> ''inv-3''], content = ex_content\<rparr>"

definition ex_unmarshal :: "string \<Rightarrow> error + (string \<times> string) Unstructured" where
  "ex_unmarshal s =
     (if s = ex_json_a then Inr ex_snapshot_a
      else if s = ex_json_empty then Inr ex_snapshot_empty
      else if s = ex_json_inv3 then Inr ex_snapshot_inv3
      else if s = ex_json_b_inv3 then Inr ex_snapshot_b_inv3
      else Inl (Error ''invalid character''))"

definition ex_encode :: "(string \<times> string) Unstructured \<Rightarrow> error + string" where
  "ex_encode x =
     (if x = ex_snapshot_inv3 then Inr ex_json_inv3
      else if x = ex_snapshot_b_inv3 then Inr ex_json_b_inv3
      else if x = ex_snapshot_a then Inr ex_json_a
      else if x = ex_snapshot_empty then Inr ex_json_empty
      else Inl (Error ''unsupported value''))"

text \<open>An encoder that always fails, as a JSON encoder does on a value it cannot write.\<close>

definition ex_failing_encode :: "(string \<times> string) Unstructured \<Rightarrow> error + string" where
  "ex_failing_encode x = Inl (Error ''unsupported value'')"


definition ex_live_owned :: "(string \<times> string) Unstructured" where
  "ex_live_owned = \<lparr>annots = Some [key \<mapsto> ''inv-1''], content = ex_content\<rparr>"

definition ex_live_empty_snapshot :: "(string \<times> string) Unstructured" where
  "ex_live_empty_snapshot =
     \<lparr>annots = Some [LastAppliedConfigAnnotation \<mapsto> ex_json_empty], content = ex_content\<rparr>"


definition ex_live_malformed :: "(string \<times> string) Unstructured" where
  \<open>ex_live_malformed =
     \<lparr>annots = Some [LastAppliedConfigAnnotation \<mapsto> ''{"kind":''], content = ex_content\<rparr>\<close>

text \<open>An example world: a mapper that knows ConfigMaps only and a store of one object.\<close>

definition ex_mapper :: "(nat, string) RESTMapper" where
  "ex_mapper =
     \<lparr>RESTMapping = (\<lambda>gk w.
        if Kind gk = ''ConfigMap'' \<and> Group gk = []
        then (Inr \<lparr>Resource = ''configmaps''\<rparr>, w)
        else (Inl (Error ''no matches for kind''), w))\<rparr>"

definition ex_dynamic :: "(nat, unit, string, string \<times> string) Interface" where
  "ex_dynamic =
     \<lparr>remote_Get = (\<lambda>ctx r n opts w.
        if resource r = ''configmaps'' \<and> namespace r = ''default'' \<and> n = ''cm''
        then ((Some ex_live_owned, None), Suc w)
        else ((None, Some (Error ''not found'')), Suc w)),
      remote_Update = (\<lambda>ctx r obj opts w. ((Some obj, None), Suc w))\<rparr>"

definition ex_meta :: ObjMetadata where
  "ex_meta = \<lparr>Namespace = ''default'', Name = ''cm'',
              GroupKind = \<lparr>Group = [], Kind = ''ConfigMap''\<rparr>\<rparr>"

definition ex_meta_unknown :: ObjMetadata where
  "ex_meta_unknown = \<lparr>Namespace = ''default'', Name = ''cm'',
                      GroupKind = \<lparr>Group = [], Kind = ''Widget''\<rparr>\<rparr>"

section \<open>Properties of UpdateAnnotation\<close>

lemma key_neq_LastApplied:
  "key \<noteq> LastAppliedConfigAnnotation" "LastAppliedConfigAnnotation \<noteq> key"
  by (simp_all add: key_def LastAppliedConfigAnnotation_def)

lemma nil_as_empty:
  "(case m of None \<Rightarrow> Map.empty | Some a \<Rightarrow> a) k = index_map m k"
  by (simp add: index_map_def split: option.splits)

lemma UpdateAnnotation_declines:
  assumes "index_map (GetAnnotations obj) key = Some val" and "val \<noteq> oldID"
  shows "UpdateAnnotation unmarshal encode obj oldID newID = (obj, False, None)"
  using assms by (simp add: UpdateAnnotation_def Let_def nil_as_empty)

lemma UpdateAnnotation_no_snapshot:
  assumes "index_map (GetAnnotations obj) key = None \<or> index_map (GetAnnotations obj) key = Some oldID"
    and "getOriginalObj unmarshal obj = None"
  shows "UpdateAnnotation unmarshal encode obj oldID newID =
           (SetAnnotations obj
              (Some ((case GetAnnotations obj of None \<Rightarrow> Map.empty | Some a \<Rightarrow> a)(key \<mapsto> newID))),
            True, None)"
  using assms by (auto simp add: UpdateAnnotation_def Let_def nil_as_empty)

lemma UpdateAnnotation_snapshot:
  assumes "index_map (GetAnnotations obj) key = None \<or> index_map (GetAnnotations obj) key = Some oldID"
    and "getOriginalObj unmarshal obj = Some u"
  shows "UpdateAnnotation unmarshal encode obj oldID newID =
           (SetAnnotations obj (GetAnnotations (fst (CreateOrUpdateAnnotation False
              (SetAnnotations u
                 (Some ((case GetAnnotations obj of None \<Rightarrow> Map.empty | Some a \<Rightarrow> a)(key \<mapsto> newID))))
              encode))),
            True,
            snd (CreateOrUpdateAnnotation False
              (SetAnnotations u
                 (Some ((case GetAnnotations obj of None \<Rightarrow> Map.empty | Some a \<Rightarrow> a)(key \<mapsto> newID))))
              encode))"
  using assms by (auto simp add: UpdateAnnotation_def Let_def nil_as_empty split: prod.splits)

lemma GetAnnotations_SetAnnotations: "GetAnnotations (SetAnnotations obj a) = a"
  by (simp add: GetAnnotations_def SetAnnotations_def)

lemma SetAnnotations_twice: "SetAnnotations (SetAnnotations obj a) b = SetAnnotations obj b"
  by (simp add: SetAnnotations_def)

lemma CreateOrUpdateAnnotation_keeps:
  "k \<noteq> LastAppliedConfigAnnotation \<Longrightarrow>
   index_map (GetAnnotations (fst (CreateOrUpdateAnnotation False x encode))) k
     = index_map (GetAnnotations x) k"
  by (auto simp add: CreateOrUpdateAnnotation_def updateApplyAnnotation_def CreateApplyAnnotation_def
      GetModifiedConfiguration_def setOriginalConfiguration_def GetOriginalConfiguration_def
      GetAnnotations_def SetAnnotations_def index_map_def Let_def
      split: option.splits sum.splits prod.splits)

lemma CreateOrUpdateAnnotation_encode_fails:
  assumes "a LastAppliedConfigAnnotation = Some s" and "s \<noteq> []"
    and "encode (SetAnnotations u (Some (a(LastAppliedConfigAnnotation := None)))) = Inl e"
  shows "CreateOrUpdateAnnotation False (SetAnnotations u (Some a)) encode =
           (SetAnnotations u (Some (a(LastAppliedConfigAnnotation := None))), Some e)"
  using assms
  by (simp add: CreateOrUpdateAnnotation_def updateApplyAnnotation_def CreateApplyAnnotation_def
      GetModifiedConfiguration_def GetOriginalConfiguration_def index_map_def Let_def
      GetAnnotations_SetAnnotations SetAnnotations_twice)

lemma CreateOrUpdateAnnotation_encode_ok:
  assumes "a LastAppliedConfigAnnotation = Some s" and "s \<noteq> []"
    and "encode (SetAnnotations u (Some (a(LastAppliedConfigAnnotation := None)))) = Inr t"
    and "t \<noteq> []"
  shows "CreateOrUpdateAnnotation False (SetAnnotations u (Some a)) encode =
           (SetAnnotations u (Some (a(LastAppliedConfigAnnotation \<mapsto> t))), None)"
  using assms
  by (simp add: CreateOrUpdateAnnotation_def updateApplyAnnotation_def CreateApplyAnnotation_def
      GetModifiedConfiguration_def GetOriginalConfiguration_def setOriginalConfiguration_def
      index_map_def Let_def GetAnnotations_SetAnnotations SetAnnotations_twice)

lemma UpdateAnnotation_owner_set:
  assumes "index_map (GetAnnotations obj) key = None \<or> index_map (GetAnnotations obj) key = Some oldID"
  shows "index_map (GetAnnotations (fst (UpdateAnnotation unmarshal encode obj oldID newID))) key = Some newID"
    and "fst (snd (UpdateAnnotation unmarshal encode obj oldID newID))"
proof -
  let ?a = "(case GetAnnotations obj of None \<Rightarrow> Map.empty | Some a \<Rightarrow> a)(key \<mapsto> newID)"
  show "index_map (GetAnnotations (fst (UpdateAnnotation unmarshal encode obj oldID newID))) key = Some newID"
  proof (cases "getOriginalObj unmarshal obj")
    case None
    then show ?thesis
      using assms by (simp add: UpdateAnnotation_no_snapshot GetAnnotations_SetAnnotations index_map_def)
  next
    case (Some u)
    have "index_map (GetAnnotations (fst (CreateOrUpdateAnnotation False (SetAnnotations u (Some ?a)) encode))) key
            = index_map (GetAnnotations (SetAnnotations u (Some ?a))) key"
      by (rule CreateOrUpdateAnnotation_keeps) (rule key_neq_LastApplied(1))
    then show ?thesis
      using assms Some
      by (simp add: UpdateAnnotation_snapshot GetAnnotations_SetAnnotations index_map_def)
  qed
  show "fst (snd (UpdateAnnotation unmarshal encode obj oldID newID))"
    using assms
    by (cases "getOriginalObj unmarshal obj")
       (simp_all add: UpdateAnnotation_no_snapshot UpdateAnnotation_snapshot)
qed


lemma getOriginalObj_decoded:
  assumes "GetAnnotations obj = Some m" and "m LastAppliedConfigAnnotation = Some s"
    and "unmarshal s = Inr u"
  shows "getOriginalObj unmarshal obj = Some u"
  using assms by (simp add: getOriginalObj_def index_map_def)

lemma UpdateAnnotation_encode_failed:
  assumes "GetAnnotations obj = Some m" and "m key = None \<or> m key = Some oldID"
    and "m LastAppliedConfigAnnotation = Some s" and "s \<noteq> []" and "unmarshal s = Inr u"
    and "encode (SetAnnotations u (Some ((m(key \<mapsto> newID))(LastAppliedConfigAnnotation := None)))) = Inl e"
  shows "UpdateAnnotation unmarshal encode obj oldID newID =
           (SetAnnotations obj (Some ((m(key \<mapsto> newID))(LastAppliedConfigAnnotation := None))),
            True, Some e)"
proof -
  have g: "index_map (GetAnnotations obj) key = None \<or> index_map (GetAnnotations obj) key = Some oldID"
    using assms(1,2) by (simp add: index_map_def)
  have u: "getOriginalObj unmarshal obj = Some u"
    using assms(1,3,5) by (rule getOriginalObj_decoded)
  have l: "(m(key \<mapsto> newID)) LastAppliedConfigAnnotation = Some s"
    using assms(3) by (simp add: key_neq_LastApplied)
  have "CreateOrUpdateAnnotation False (SetAnnotations u (Some (m(key \<mapsto> newID)))) encode =
          (SetAnnotations u (Some ((m(key \<mapsto> newID))(LastAppliedConfigAnnotation := None))), Some e)"
    using l assms(4) assms(6) by (rule CreateOrUpdateAnnotation_encode_fails)
  with assms(1) show ?thesis
    by (simp add: UpdateAnnotation_snapshot [OF g u] GetAnnotations_SetAnnotations)
qed

lemma UpdateAnnotation_reencoded:
  assumes "GetAnnotations obj = Some m" and "m key = None \<or> m key = Some oldID"
    and "m LastAppliedConfigAnnotation = Some s" and "s \<noteq> []" and "unmarshal s = Inr u"
    and "encode (SetAnnotations u (Some ((m(key \<mapsto> newID))(LastAppliedConfigAnnotation := None)))) = Inr t"
    and "t \<noteq> []"
  shows "UpdateAnnotation unmarshal encode obj oldID newID =
           (SetAnnotations obj (Some ((m(key \<mapsto> newID))(LastAppliedConfigAnnotation \<mapsto> t))),
            True, None)"
proof -
  have g: "index_map (GetAnnotations obj) key = None \<or> index_map (GetAnnotations obj) key = Some oldID"
    using assms(1,2) by (simp add: index_map_def)
  have u: "getOriginalObj unmarshal obj = Some u"
    using assms(1,3,5) by (rule getOriginalObj_decoded)
  have l: "(m(key \<mapsto> newID)) LastAppliedConfigAnnotation = Some s"
    using assms(3) by (simp add: key_neq_LastApplied)
  have "CreateOrUpdateAnnotation False (SetAnnotations u (Some (m(key \<mapsto> newID)))) encode =
          (SetAnnotations u (Some ((m(key \<mapsto> newID))(LastAppliedConfigAnnotation \<mapsto> t))), None)"
    using l assms(4) assms(6) assms(7) by (rule CreateOrUpdateAnnotation_encode_ok)
  with assms(1) show ?thesis
    by (simp add: UpdateAnnotation_snapshot [OF g u] GetAnnotations_SetAnnotations)
qed

subsection \<open>The example codec\<close>

lemma ex_unmarshal_simps:
  "ex_unmarshal ex_json_a = Inr ex_snapshot_a"
  "ex_unmarshal ex_json_empty = Inr ex_snapshot_empty"
  "ex_unmarshal ex_json_inv3 = Inr ex_snapshot_inv3"
  "ex_unmarshal ex_json_b_inv3 = Inr ex_snapshot_b_inv3"
  by (simp_all add: ex_unmarshal_def ex_json_a_def ex_json_empty_def ex_json_inv3_def
      ex_json_b_inv3_def)

lemma ex_json_nonempty:
  "ex_json_a \<noteq> []" "ex_json_empty \<noteq> []" "ex_json_inv3 \<noteq> []" "ex_json_b_inv3 \<noteq> []"
  by (simp_all add: ex_json_a_def ex_json_empty_def ex_json_inv3_def ex_json_b_inv3_def)

lemma ex_snapshots_distinct:
  "ex_snapshot_b_inv3 \<noteq> ex_snapshot_inv3"
  "ex_snapshot_a \<noteq> ex_snapshot_inv3" "ex_snapshot_a \<noteq> ex_snapshot_b_inv3"
  "ex_snapshot_empty \<noteq> ex_snapshot_inv3" "ex_snapshot_empty \<noteq> ex_snapshot_b_inv3"
  "ex_snapshot_empty \<noteq> ex_snapshot_a"
proof -
  have b: "[''b'' \<mapsto> ''2'', key \<mapsto> ''inv-3''] ''b'' = Some ''2''" "[key \<mapsto> ''inv-3''] ''b'' = None"
    "[''a'' \<mapsto> ''1''] ''b'' = None"
    by (simp_all add: key_def)
  have a: "[''a'' \<mapsto> ''1''] ''a'' = Some ''1''" "[key \<mapsto> ''inv-3''] ''a'' = None"
    by (simp_all add: key_def)
  have k: "[key \<mapsto> ''inv-3''] key = Some ''inv-3''" "[''b'' \<mapsto> ''2'', key \<mapsto> ''inv-3''] key = Some ''inv-3''"
    by simp_all
  show "ex_snapshot_b_inv3 \<noteq> ex_snapshot_inv3"
    using b by (auto simp add: ex_snapshot_b_inv3_def ex_snapshot_inv3_def dest: fun_cong [of _ _ "''b''"])
  show "ex_snapshot_a \<noteq> ex_snapshot_inv3"
    using a by (auto simp add: ex_snapshot_a_def ex_snapshot_inv3_def dest: fun_cong [of _ _ "''a''"])
  show "ex_snapshot_a \<noteq> ex_snapshot_b_inv3"
    using b by (auto simp add: ex_snapshot_a_def ex_snapshot_b_inv3_def dest: fun_cong [of _ _ "''b''"])
  show "ex_snapshot_empty \<noteq> ex_snapshot_inv3"
    using k by (auto simp add: ex_snapshot_empty_def ex_snapshot_inv3_def dest: fun_cong [of _ _ key])
  show "ex_snapshot_empty \<noteq> ex_snapshot_b_inv3"
    using k by (auto simp add: ex_snapshot_empty_def ex_snapshot_b_inv3_def dest: fun_cong [of _ _ key])
  show "ex_snapshot_empty \<noteq> ex_snapshot_a"
    using a by (auto simp add: ex_snapshot_empty_def ex_snapshot_a_def dest: fun_cong [of _ _ "''a''"])
qed

lemma ex_encode_simps:
  "ex_encode ex_snapshot_inv3 = Inr ex_json_inv3"
  "ex_encode ex_snapshot_b_inv3 = Inr ex_json_b_inv3"
  "ex_encode ex_snapshot_a = Inr ex_json_a"
  "ex_encode ex_snapshot_empty = Inr ex_json_empty"
  by (simp_all add: ex_encode_def ex_snapshots_distinct)

lemma ex_codec_roundtrip:
  assumes "ex_encode x = Inr t"
  shows "t \<noteq> [] \<and> ex_unmarshal t = Inr x"
  using assms
  by (auto simp add: ex_encode_def ex_unmarshal_simps ex_json_nonempty split: if_splits)


lemma ex_stripped_empty:
  "([LastAppliedConfigAnnotation \<mapsto> ex_json_empty](key \<mapsto> ''inv-3''))
     (LastAppliedConfigAnnotation := None) = [key \<mapsto> ''inv-3'']"
  by (rule ext) (simp add: key_neq_LastApplied)



text \<open>
  C2: when the ownership annotation is present with a value other than \<open>oldID\<close>, the call
  returns \<open>(false, nil)\<close> and the whole object is what it was.
\<close>

theorem UpdateAnnotation_mismatch_unmodified:
  assumes "index_map (GetAnnotations obj) key = Some val" and "val \<noteq> oldID"
  shows "UpdateAnnotation unmarshal encode obj oldID newID = (obj, False, None)"
  using assms by (rule UpdateAnnotation_declines)

theorem UpdateAnnotation_mismatch_unmodified_witness:
  "index_map (GetAnnotations ex_live_owned) key = Some ''inv-1'' \<and> ''inv-1'' \<noteq> ''inv-9''
   \<and> UpdateAnnotation ex_unmarshal ex_encode ex_live_owned ''inv-9'' ''inv-2''
        = (ex_live_owned, False, None)"
proof -
  have h: "index_map (GetAnnotations ex_live_owned) key = Some ''inv-1''"
    by (simp add: index_map_def GetAnnotations_def ex_live_owned_def)
  have d: "''inv-1'' \<noteq> ''inv-9''" by simp
  show ?thesis
    using h d UpdateAnnotation_mismatch_unmodified [OF h d, of ex_unmarshal ex_encode "''inv-2''"]
    by simp
qed



text \<open>
  C7: when the ownership annotation is absent or equal to \<open>oldID\<close> and the last-applied
  annotation is absent or does not decode, the call writes \<open>newID\<close> under the ownership key
  of the live object's annotations, touches nothing else, and returns \<open>(true, nil)\<close>: the
  decoding error is not reported.
\<close>

theorem UpdateAnnotation_undecodable_snapshot:
  assumes "index_map (GetAnnotations obj) key = None \<or> index_map (GetAnnotations obj) key = Some oldID"
    and "index_map (GetAnnotations obj) LastAppliedConfigAnnotation = None
         \<or> (\<exists>s e. index_map (GetAnnotations obj) LastAppliedConfigAnnotation = Some s
                  \<and> unmarshal s = Inl e)"
  shows "UpdateAnnotation unmarshal encode obj oldID newID =
           (SetAnnotations obj
              (Some ((case GetAnnotations obj of None \<Rightarrow> Map.empty | Some a \<Rightarrow> a)(key \<mapsto> newID))),
            True, None)"
proof -
  have "getOriginalObj unmarshal obj = None"
    using assms(2) by (auto simp add: getOriginalObj_def)
  with assms(1) show ?thesis
    by (rule UpdateAnnotation_no_snapshot)
qed

theorem UpdateAnnotation_undecodable_snapshot_witness:
  \<open>(index_map (GetAnnotations ex_live_malformed) key = None
      \<or> index_map (GetAnnotations ex_live_malformed) key = Some [])
   \<and> index_map (GetAnnotations ex_live_malformed) LastAppliedConfigAnnotation = Some ''{"kind":''
   \<and> ex_unmarshal ''{"kind":'' = Inl (Error ''invalid character'')
   \<and> UpdateAnnotation ex_unmarshal ex_encode ex_live_malformed [] ''inv-2''
        = (\<lparr>annots = Some [LastAppliedConfigAnnotation \<mapsto> ''{"kind":'', key \<mapsto> ''inv-2''],
            content = ex_content\<rparr>, True, None)\<close>
proof -
  have g: "index_map (GetAnnotations ex_live_malformed) key = None
      \<or> index_map (GetAnnotations ex_live_malformed) key = Some []"
    by (simp add: index_map_def GetAnnotations_def ex_live_malformed_def key_neq_LastApplied)
  have l: \<open>index_map (GetAnnotations ex_live_malformed) LastAppliedConfigAnnotation = Some ''{"kind":''\<close>
    by (simp add: index_map_def GetAnnotations_def ex_live_malformed_def)
  have u: \<open>ex_unmarshal ''{"kind":'' = Inl (Error ''invalid character'')\<close>
    by (simp add: ex_unmarshal_def ex_json_a_def ex_json_empty_def ex_json_inv3_def ex_json_b_inv3_def)
  have s: "index_map (GetAnnotations ex_live_malformed) LastAppliedConfigAnnotation = None
         \<or> (\<exists>s e. index_map (GetAnnotations ex_live_malformed) LastAppliedConfigAnnotation = Some s
                  \<and> ex_unmarshal s = Inl e)"
    using l u by blast
  show ?thesis
    using g l u UpdateAnnotation_undecodable_snapshot [OF g s, of ex_encode "''inv-2''"]
    by (simp add: SetAnnotations_def GetAnnotations_def ex_live_malformed_def)
qed

text \<open>
  C10: an error comes only together with \<open>changed = true\<close>; when the call returns
  \<open>changed = false\<close> its error is nil.
\<close>

theorem UpdateAnnotation_error_only_when_changed:
  "(snd (snd (UpdateAnnotation unmarshal encode obj oldID newID)) \<noteq> None
      \<longrightarrow> fst (snd (UpdateAnnotation unmarshal encode obj oldID newID)))
   \<and> (\<not> fst (snd (UpdateAnnotation unmarshal encode obj oldID newID))
      \<longrightarrow> snd (snd (UpdateAnnotation unmarshal encode obj oldID newID)) = None)"
proof (cases "index_map (GetAnnotations obj) key = None \<or> index_map (GetAnnotations obj) key = Some oldID")
  case True
  then have "fst (snd (UpdateAnnotation unmarshal encode obj oldID newID))"
    by (rule UpdateAnnotation_owner_set)
  then show ?thesis by simp
next
  case False
  then obtain val where "index_map (GetAnnotations obj) key = Some val" "val \<noteq> oldID"
    by auto
  then have "UpdateAnnotation unmarshal encode obj oldID newID = (obj, False, None)"
    by (rule UpdateAnnotation_declines)
  then show ?thesis by simp
qed

theorem UpdateAnnotation_error_only_when_changed_witness:
  "snd (snd (UpdateAnnotation ex_unmarshal ex_failing_encode ex_live_empty_snapshot [] ''inv-3''))
     = Some (Error ''unsupported value'')
   \<and> fst (snd (UpdateAnnotation ex_unmarshal ex_failing_encode ex_live_empty_snapshot [] ''inv-3''))
   \<and> \<not> fst (snd (UpdateAnnotation ex_unmarshal ex_encode ex_live_owned ''inv-9'' ''inv-2''))
   \<and> snd (snd (UpdateAnnotation ex_unmarshal ex_encode ex_live_owned ''inv-9'' ''inv-2'')) = None"
proof -
  have e: "UpdateAnnotation ex_unmarshal ex_failing_encode ex_live_empty_snapshot [] ''inv-3''
             = (SetAnnotations ex_live_empty_snapshot
                  (Some (([LastAppliedConfigAnnotation \<mapsto> ex_json_empty](key \<mapsto> ''inv-3''))
                           (LastAppliedConfigAnnotation := None))),
                True, Some (Error ''unsupported value''))"
    by (rule UpdateAnnotation_encode_failed [where s = ex_json_empty and u = ex_snapshot_empty])
       (simp_all add: GetAnnotations_def ex_live_empty_snapshot_def key_neq_LastApplied
          ex_unmarshal_simps ex_json_nonempty ex_failing_encode_def)
  have d: "UpdateAnnotation ex_unmarshal ex_encode ex_live_owned ''inv-9'' ''inv-2''
             = (ex_live_owned, False, None)"
    by (rule UpdateAnnotation_declines [where val = "''inv-1''"])
       (simp_all add: index_map_def GetAnnotations_def ex_live_owned_def)
  have e': "snd (snd (UpdateAnnotation ex_unmarshal ex_failing_encode ex_live_empty_snapshot [] ''inv-3''))
              \<noteq> None"
    by (simp add: e)
  have d': "\<not> fst (snd (UpdateAnnotation ex_unmarshal ex_encode ex_live_owned ''inv-9'' ''inv-2''))"
    by (simp add: d)
  have "fst (snd (UpdateAnnotation ex_unmarshal ex_failing_encode ex_live_empty_snapshot [] ''inv-3''))"
    using UpdateAnnotation_error_only_when_changed
      [of ex_unmarshal ex_failing_encode ex_live_empty_snapshot "[]" "''inv-3''"] e'
    by blast
  moreover have "snd (snd (UpdateAnnotation ex_unmarshal ex_encode ex_live_owned ''inv-9'' ''inv-2'')) = None"
    using UpdateAnnotation_error_only_when_changed
      [of ex_unmarshal ex_encode ex_live_owned "''inv-9''" "''inv-2''"] d'
    by blast
  ultimately show ?thesis
    using d' by (simp add: e)
qed

text \<open>
  C4: when the snapshot branch is taken and the encoder fails on the updated snapshot,
  the call returns \<open>changed = true\<close> with the encoder's error, and the live object has
  been mutated all the same: its annotations are the updated ones without the last-applied
  annotation, so the ownership key holds \<open>newID\<close> and the object differs from the input.
\<close>

theorem UpdateAnnotation_encode_error_after_mutation:
  assumes "GetAnnotations obj = Some m" and "m key = None \<or> m key = Some oldID"
    and "m LastAppliedConfigAnnotation = Some s" and "s \<noteq> []" and "unmarshal s = Inr u"
    and "encode (SetAnnotations u (Some ((m(key \<mapsto> newID))(LastAppliedConfigAnnotation := None)))) = Inl e"
  shows "UpdateAnnotation unmarshal encode obj oldID newID =
           (SetAnnotations obj (Some ((m(key \<mapsto> newID))(LastAppliedConfigAnnotation := None))),
            True, Some e)
       \<and> index_map (GetAnnotations (fst (UpdateAnnotation unmarshal encode obj oldID newID))) key
           = Some newID
       \<and> fst (UpdateAnnotation unmarshal encode obj oldID newID) \<noteq> obj"
proof -
  have r: "UpdateAnnotation unmarshal encode obj oldID newID =
           (SetAnnotations obj (Some ((m(key \<mapsto> newID))(LastAppliedConfigAnnotation := None))),
            True, Some e)"
    using assms by (rule UpdateAnnotation_encode_failed)
  have k: "index_map (GetAnnotations (fst (UpdateAnnotation unmarshal encode obj oldID newID))) key
           = Some newID"
    by (simp add: r GetAnnotations_SetAnnotations index_map_def key_neq_LastApplied)
  have "index_map (GetAnnotations (fst (UpdateAnnotation unmarshal encode obj oldID newID)))
          LastAppliedConfigAnnotation = None"
    by (simp add: r GetAnnotations_SetAnnotations index_map_def)
  moreover have "index_map (GetAnnotations obj) LastAppliedConfigAnnotation = Some s"
    using assms(1,3) by (simp add: index_map_def)
  ultimately have "fst (UpdateAnnotation unmarshal encode obj oldID newID) \<noteq> obj"
    by auto
  with r k show ?thesis by simp
qed

theorem UpdateAnnotation_encode_error_after_mutation_witness:
  "GetAnnotations ex_live_empty_snapshot = Some [LastAppliedConfigAnnotation \<mapsto> ex_json_empty]
   \<and> ex_json_empty \<noteq> []
   \<and> ex_unmarshal ex_json_empty = Inr ex_snapshot_empty
   \<and> ex_failing_encode (SetAnnotations ex_snapshot_empty (Some [key \<mapsto> ''inv-3'']))
       = Inl (Error ''unsupported value'')
   \<and> UpdateAnnotation ex_unmarshal ex_failing_encode ex_live_empty_snapshot [] ''inv-3''
       = (\<lparr>annots = Some [key \<mapsto> ''inv-3''], content = ex_content\<rparr>,
          True, Some (Error ''unsupported value''))
   \<and> fst (UpdateAnnotation ex_unmarshal ex_failing_encode ex_live_empty_snapshot [] ''inv-3'')
       \<noteq> ex_live_empty_snapshot"
proof -
  let ?m = "[LastAppliedConfigAnnotation \<mapsto> ex_json_empty]"
  have a: "GetAnnotations ex_live_empty_snapshot = Some ?m"
    by (simp add: GetAnnotations_def ex_live_empty_snapshot_def)
  have g: "?m key = None \<or> ?m key = Some []"
    by (simp add: key_neq_LastApplied)
  have l: "?m LastAppliedConfigAnnotation = Some ex_json_empty"
    by simp
  have f: "ex_failing_encode (SetAnnotations ex_snapshot_empty
             (Some ((?m(key \<mapsto> ''inv-3''))(LastAppliedConfigAnnotation := None))))
           = Inl (Error ''unsupported value'')"
    by (simp add: ex_failing_encode_def)
  have r: "SetAnnotations ex_live_empty_snapshot (Some [key \<mapsto> ''inv-3''])
             = \<lparr>annots = Some [key \<mapsto> ''inv-3''], content = ex_content\<rparr>"
    by (simp add: SetAnnotations_def ex_live_empty_snapshot_def)
  note t = UpdateAnnotation_encode_error_after_mutation
      [where obj = ex_live_empty_snapshot and m = ?m and oldID = "[]" and newID = "''inv-3''"
         and s = ex_json_empty and u = ex_snapshot_empty and unmarshal = ex_unmarshal
         and encode = ex_failing_encode and e = "Error ''unsupported value''",
       OF a g l ex_json_nonempty(2) ex_unmarshal_simps(2) f]
  have t1: "UpdateAnnotation ex_unmarshal ex_failing_encode ex_live_empty_snapshot [] ''inv-3''
       = (\<lparr>annots = Some [key \<mapsto> ''inv-3''], content = ex_content\<rparr>,
          True, Some (Error ''unsupported value''))"
    using t by (simp add: r ex_stripped_empty)
  have t3: "fst (UpdateAnnotation ex_unmarshal ex_failing_encode ex_live_empty_snapshot [] ''inv-3'')
       \<noteq> ex_live_empty_snapshot"
    using t by blast
  have f': "ex_failing_encode (SetAnnotations ex_snapshot_empty (Some [key \<mapsto> ''inv-3'']))
       = Inl (Error ''unsupported value'')"
    by (simp add: ex_failing_encode_def)
  from a ex_json_nonempty(2) ex_unmarshal_simps(2) f' t1 t3 show ?thesis
    by (intro conjI)
qed





text \<open>
  C6: the live object has a non-empty last-applied text that decodes to a snapshot, and its
  ownership annotation is absent or empty. With a codec that decodes what it encoded, and
  the call \<open>UpdateAnnotation obj "" "inv-3"\<close> returning no error, the ownership annotation
  of the live object is \<open>inv-3\<close>, and so is that of the snapshot decoded from the live
  object's new last-applied annotation (whatever annotations the old snapshot had, the
  empty map among them).
\<close>

theorem UpdateAnnotation_live_and_snapshot_owner:
  assumes "GetAnnotations obj = Some m" and "m key = None \<or> m key = Some []"
    and "m LastAppliedConfigAnnotation = Some s" and "s \<noteq> []" and "unmarshal s = Inr u"
    and roundtrip: "\<And>x t. encode x = Inr t \<Longrightarrow> t \<noteq> [] \<and> unmarshal t = Inr x"
    and no_error: "snd (snd (UpdateAnnotation unmarshal encode obj [] ''inv-3'')) = None"
  shows "index_map (GetAnnotations (fst (UpdateAnnotation unmarshal encode obj [] ''inv-3''))) key
           = Some ''inv-3''
       \<and> (\<exists>u'. getOriginalObj unmarshal (fst (UpdateAnnotation unmarshal encode obj [] ''inv-3''))
                  = Some u'
              \<and> index_map (GetAnnotations u') key = Some ''inv-3'')"
proof -
  let ?x = "SetAnnotations u (Some ((m(key \<mapsto> ''inv-3''))(LastAppliedConfigAnnotation := None)))"
  have g: "index_map (GetAnnotations obj) key = None \<or> index_map (GetAnnotations obj) key = Some []"
    using assms(1,2) by (simp add: index_map_def)
  have live: "index_map (GetAnnotations (fst (UpdateAnnotation unmarshal encode obj [] ''inv-3''))) key
           = Some ''inv-3''"
    using g by (rule UpdateAnnotation_owner_set)
  have "\<exists>t. encode ?x = Inr t"
  proof (cases "encode ?x")
    case (Inl e)
    with assms(1-5) have "UpdateAnnotation unmarshal encode obj [] ''inv-3''
        = (SetAnnotations obj (Some ((m(key \<mapsto> ''inv-3''))(LastAppliedConfigAnnotation := None))),
           True, Some e)"
      by (rule UpdateAnnotation_encode_failed)
    with no_error show ?thesis by simp
  next
    case (Inr t)
    then show ?thesis by blast
  qed
  then obtain t where t: "encode ?x = Inr t" ..
  from roundtrip [OF t] have ne: "t \<noteq> []" and dec: "unmarshal t = Inr ?x" by simp_all
  from assms(1-5) t ne
  have r: "UpdateAnnotation unmarshal encode obj [] ''inv-3''
        = (SetAnnotations obj (Some ((m(key \<mapsto> ''inv-3''))(LastAppliedConfigAnnotation \<mapsto> t))),
           True, None)"
    by (rule UpdateAnnotation_reencoded)
  have "getOriginalObj unmarshal (fst (UpdateAnnotation unmarshal encode obj [] ''inv-3'')) = Some ?x"
    using dec by (simp add: r getOriginalObj_def index_map_def GetAnnotations_SetAnnotations)
  moreover have "index_map (GetAnnotations ?x) key = Some ''inv-3''"
    by (simp add: index_map_def GetAnnotations_SetAnnotations key_neq_LastApplied)
  ultimately show ?thesis
    using live by blast
qed

theorem UpdateAnnotation_live_and_snapshot_owner_witness:
  "GetAnnotations ex_live_empty_snapshot = Some [LastAppliedConfigAnnotation \<mapsto> ex_json_empty]
   \<and> ex_json_empty \<noteq> []
   \<and> ex_unmarshal ex_json_empty = Inr ex_snapshot_empty
   \<and> GetAnnotations ex_snapshot_empty = Some Map.empty
   \<and> snd (UpdateAnnotation ex_unmarshal ex_encode ex_live_empty_snapshot [] ''inv-3'') = (True, None)
   \<and> index_map (GetAnnotations
         (fst (UpdateAnnotation ex_unmarshal ex_encode ex_live_empty_snapshot [] ''inv-3''))) key
        = Some ''inv-3''
   \<and> (\<exists>u'. getOriginalObj ex_unmarshal
                (fst (UpdateAnnotation ex_unmarshal ex_encode ex_live_empty_snapshot [] ''inv-3''))
                = Some u'
            \<and> index_map (GetAnnotations u') key = Some ''inv-3'')
   \<and> getOriginalObj ex_unmarshal
         (fst (UpdateAnnotation ex_unmarshal ex_encode ex_live_empty_snapshot [] ''inv-3''))
        = Some ex_snapshot_inv3"
proof -
  let ?m = "[LastAppliedConfigAnnotation \<mapsto> ex_json_empty]"
  have a: "GetAnnotations ex_live_empty_snapshot = Some ?m"
    by (simp add: GetAnnotations_def ex_live_empty_snapshot_def)
  have g: "?m key = None \<or> ?m key = Some []"
    by (simp add: key_neq_LastApplied)
  have l: "?m LastAppliedConfigAnnotation = Some ex_json_empty"
    by simp
  have x: "SetAnnotations ex_snapshot_empty
             (Some ((?m(key \<mapsto> ''inv-3''))(LastAppliedConfigAnnotation := None))) = ex_snapshot_inv3"
    by (simp add: ex_stripped_empty SetAnnotations_def ex_snapshot_empty_def ex_snapshot_inv3_def)
  have e: "ex_encode (SetAnnotations ex_snapshot_empty
             (Some ((?m(key \<mapsto> ''inv-3''))(LastAppliedConfigAnnotation := None)))) = Inr ex_json_inv3"
    by (simp only: x ex_encode_simps)
  have r: "UpdateAnnotation ex_unmarshal ex_encode ex_live_empty_snapshot [] ''inv-3''
        = (SetAnnotations ex_live_empty_snapshot
             (Some ((?m(key \<mapsto> ''inv-3''))(LastAppliedConfigAnnotation \<mapsto> ex_json_inv3))),
           True, None)"
    using a g l ex_json_nonempty(2) ex_unmarshal_simps(2) e ex_json_nonempty(3)
    by (rule UpdateAnnotation_reencoded)
  have n: "snd (snd (UpdateAnnotation ex_unmarshal ex_encode ex_live_empty_snapshot [] ''inv-3'')) = None"
    by (simp add: r)
  note t = UpdateAnnotation_live_and_snapshot_owner
      [where obj = ex_live_empty_snapshot and m = ?m and s = ex_json_empty and u = ex_snapshot_empty
         and unmarshal = ex_unmarshal and encode = ex_encode,
       OF a g l ex_json_nonempty(2) ex_unmarshal_simps(2) ex_codec_roundtrip n]
  have c4: "GetAnnotations ex_snapshot_empty = Some Map.empty"
    by (simp add: GetAnnotations_def ex_snapshot_empty_def)
  have c5: "snd (UpdateAnnotation ex_unmarshal ex_encode ex_live_empty_snapshot [] ''inv-3'') = (True, None)"
    by (simp add: r)
  have c8: "getOriginalObj ex_unmarshal
         (fst (UpdateAnnotation ex_unmarshal ex_encode ex_live_empty_snapshot [] ''inv-3''))
        = Some ex_snapshot_inv3"
    by (simp add: r getOriginalObj_def index_map_def GetAnnotations_SetAnnotations ex_unmarshal_simps)
  from a ex_json_nonempty(2) ex_unmarshal_simps(2) c4 c5 conjunct1 [OF t] conjunct2 [OF t] c8
  show ?thesis by (intro conjI)
qed

section \<open>Properties of the client\<close>

lemma Get_resolution_fails:
  assumes "RESTMapping (restMapper uc) (GroupKind meta) w = (Inl err, w1)"
  shows "Get uc ctx meta w = ((None, Some err), w1, [RESTMappingCall (GroupKind meta)])"
  using assms by (simp add: Get_def resourceInterface_def)

lemma Get_resolution_succeeds:
  assumes "RESTMapping (restMapper uc) (GroupKind meta) w = (Inr mapping, w1)"
    and "remote_Get (client uc) ctx \<lparr>resource = Resource mapping, namespace = Namespace meta\<rparr>
           (Name meta) GetOptions_zero w1 = (res, w2)"
  shows "Get uc ctx meta w =
           (res, w2,
            [RESTMappingCall (GroupKind meta),
             GetCall ctx \<lparr>resource = Resource mapping, namespace = Namespace meta\<rparr>
               (Name meta) GetOptions_zero])"
  using assms by (simp add: Get_def resourceInterface_def)

lemma Get_log_cases:
  "snd (snd (Get uc ctx meta w)) = [RESTMappingCall (GroupKind meta)]
   \<or> (\<exists>r. snd (snd (Get uc ctx meta w))
            = [RESTMappingCall (GroupKind meta), GetCall ctx r (Name meta) GetOptions_zero])"
proof (cases "RESTMapping (restMapper uc) (GroupKind meta) w")
  case (Pair res w1)
  show ?thesis
  proof (cases res)
    case (Inl err)
    with Pair show ?thesis by (simp add: Get_resolution_fails)
  next
    case (Inr mapping)
    obtain res2 w2 where
      "remote_Get (client uc) ctx \<lparr>resource = Resource mapping, namespace = Namespace meta\<rparr>
           (Name meta) GetOptions_zero w1 = (res2, w2)"
      by (cases "remote_Get (client uc) ctx \<lparr>resource = Resource mapping, namespace = Namespace meta\<rparr>
           (Name meta) GetOptions_zero w1") blast
    with Pair Inr show ?thesis by (simp add: Get_resolution_succeeds)
  qed
qed

text \<open>
  C8: \<^verbatim>\<open>Get\<close> asks the mapper once. When the mapper fails, its error is returned as it
  is and nothing is fetched; when it succeeds, one fetch is made, by \<open>Name\<close>, with
  zero-valued options, on the resolved resource in the namespace of the identity, and what
  the remote side returned (object and error) is returned as it is. No other call is made.
\<close>

theorem Get_one_resolution_one_fetch:
  "(RESTMapping (restMapper uc) (GroupKind meta) w = (Inl err, w1) \<longrightarrow>
      Get uc ctx meta w = ((None, Some err), w1, [RESTMappingCall (GroupKind meta)]))
   \<and> (RESTMapping (restMapper uc) (GroupKind meta) w = (Inr mapping, w1) \<longrightarrow>
      remote_Get (client uc) ctx \<lparr>resource = Resource mapping, namespace = Namespace meta\<rparr>
        (Name meta) GetOptions_zero w1 = (res, w2) \<longrightarrow>
      Get uc ctx meta w =
        (res, w2,
         [RESTMappingCall (GroupKind meta),
          GetCall ctx \<lparr>resource = Resource mapping, namespace = Namespace meta\<rparr>
            (Name meta) GetOptions_zero]))
   \<and> length (filter is_RESTMappingCall (snd (snd (Get uc ctx meta w)))) = 1
   \<and> length (filter is_GetCall (snd (snd (Get uc ctx meta w)))) \<le> 1
   \<and> filter is_UpdateCall (snd (snd (Get uc ctx meta w))) = []"
proof -
  have counts: "length (filter is_RESTMappingCall (snd (snd (Get uc ctx meta w)))) = 1
      \<and> length (filter is_GetCall (snd (snd (Get uc ctx meta w)))) \<le> 1
      \<and> filter is_UpdateCall (snd (snd (Get uc ctx meta w))) = []"
    using Get_log_cases [of uc ctx meta w] by auto
  show ?thesis
    using counts Get_resolution_fails [of uc meta w err w1 ctx]
      Get_resolution_succeeds [of uc meta w mapping w1 ctx res w2]
    by blast
qed

theorem Get_one_resolution_one_fetch_witness:
  "RESTMapping (restMapper (NewClient ex_dynamic ex_mapper)) (GroupKind ex_meta_unknown) 0
     = (Inl (Error ''no matches for kind''), 0)
   \<and> Get (NewClient ex_dynamic ex_mapper) () ex_meta_unknown 0
     = ((None, Some (Error ''no matches for kind'')), 0,
        [RESTMappingCall \<lparr>Group = [], Kind = ''Widget''\<rparr>])
   \<and> RESTMapping (restMapper (NewClient ex_dynamic ex_mapper)) (GroupKind ex_meta) 0
     = (Inr \<lparr>Resource = ''configmaps''\<rparr>, 0)
   \<and> remote_Get (client (NewClient ex_dynamic ex_mapper)) ()
        \<lparr>resource = ''configmaps'', namespace = ''default''\<rparr> ''cm'' GetOptions_zero 0
     = ((Some ex_live_owned, None), 1)
   \<and> Get (NewClient ex_dynamic ex_mapper) () ex_meta 0
     = ((Some ex_live_owned, None), 1,
        [RESTMappingCall \<lparr>Group = [], Kind = ''ConfigMap''\<rparr>,
         GetCall () \<lparr>resource = ''configmaps'', namespace = ''default''\<rparr> ''cm'' GetOptions_zero])"
proof -
  have m1: "RESTMapping (restMapper (NewClient ex_dynamic ex_mapper)) (GroupKind ex_meta_unknown) 0
     = (Inl (Error ''no matches for kind''), 0)"
    by (simp add: NewClient_def ex_mapper_def ex_meta_unknown_def)
  have m2: "RESTMapping (restMapper (NewClient ex_dynamic ex_mapper)) (GroupKind ex_meta) 0
     = (Inr \<lparr>Resource = ''configmaps''\<rparr>, 0)"
    by (simp add: NewClient_def ex_mapper_def ex_meta_def)
  have f2: "remote_Get (client (NewClient ex_dynamic ex_mapper)) ()
        \<lparr>resource = Resource \<lparr>Resource = ''configmaps''\<rparr>, namespace = Namespace ex_meta\<rparr>
        (Name ex_meta) GetOptions_zero 0
     = ((Some ex_live_owned, None), 1)"
    by (simp add: NewClient_def ex_dynamic_def ex_meta_def)
  have g1: "Get (NewClient ex_dynamic ex_mapper) () ex_meta_unknown 0
     = ((None, Some (Error ''no matches for kind'')), 0,
        [RESTMappingCall (GroupKind ex_meta_unknown)])"
    using m1 Get_one_resolution_one_fetch
      [of "NewClient ex_dynamic ex_mapper" ex_meta_unknown 0 "Error ''no matches for kind''" 0 "()"]
    by blast
  have g2: "Get (NewClient ex_dynamic ex_mapper) () ex_meta 0
     = ((Some ex_live_owned, None), 1,
        [RESTMappingCall (GroupKind ex_meta),
         GetCall () \<lparr>resource = Resource \<lparr>Resource = ''configmaps''\<rparr>, namespace = Namespace ex_meta\<rparr>
           (Name ex_meta) GetOptions_zero])"
    using m2 f2 Get_one_resolution_one_fetch
      [where uc = "NewClient ex_dynamic ex_mapper" and meta = ex_meta and w = 0
         and mapping = "\<lparr>Resource = ''configmaps''\<rparr>" and ?w1.0 = 0 and ctx = "()"
         and res = "(Some ex_live_owned, None)" and ?w2.0 = 1]
    by blast
  show ?thesis
    using m1 m2 f2 g1 g2 by (simp add: ex_meta_def ex_meta_unknown_def)
qed

text \<open>
  C9: \<^verbatim>\<open>Update\<close> with nil options and \<^verbatim>\<open>Update\<close> with zero-valued options are the same:
  same error returned, same calls made with the same arguments, same state of the world
  afterwards.
\<close>

theorem Update_nil_options_are_zero_options:
  "Update uc ctx meta obj None w = Update uc ctx meta obj (Some UpdateOptions_zero) w"
  by (simp add: Update_def split: prod.splits sum.splits)

end
